theory Spec2Isabelle
  imports Complex_Main "HOL-Library.Char_ord" "HOL-Library.List_Lexorder" "HOL-Library.Multiset"
begin

section \<open>Python values and builtins used by the tool\<close>

text \<open>
  Strings are byte strings (\<^typ>\<open>string\<close>), ordered lexicographically by character code
  as Python orders \<open>str\<close>. XBRL dollar amounts are Python integers (\<^typ>\<open>int\<close>).
  The exceptions the modelled code can raise are values of \<open>py_error\<close>.
\<close>

datatype py_error = KeyError | TypeError

text \<open>\<open>x or 0\<close> on an optional integer: \<open>None\<close> and \<open>0\<close> are both falsy.\<close>

definition or_zero :: "int option \<Rightarrow> int" where
  "or_zero x = (case x of None \<Rightarrow> 0 | Some v \<Rightarrow> (if v \<noteq> 0 then v else 0))"

text \<open>The truth value of an integer that has already been defaulted: \<open>if cash\<close>.\<close>

definition truthy :: "int \<Rightarrow> bool" where
  "truthy v = (v \<noteq> 0)"

text \<open>
  \<open>max(xs, key=f)\<close> on a non-empty list: the running maximum starts at the first item and
  is replaced only by an item with a strictly greater key, so the first of several maximal
  items is returned.
\<close>

fun max_loop :: "('a \<Rightarrow> 'k::linorder) \<Rightarrow> 'a \<Rightarrow> 'a list \<Rightarrow> 'a" where
  "max_loop key best [] = best"
| "max_loop key best (x # xs) = max_loop key (if key best < key x then x else best) xs"

text \<open>\<open>t in s\<close> on strings: \<open>t\<close> occurs in \<open>s\<close> as a contiguous substring.\<close>

definition startswith :: "string \<Rightarrow> string \<Rightarrow> bool" where
  "startswith s t = (take (length t) s = t)"

fun py_in :: "string \<Rightarrow> string \<Rightarrow> bool" where
  "py_in t [] = (t = [])"
| "py_in t (c # cs) = (if startswith (c # cs) t then True else py_in t cs)"

text \<open>\<open>str.lower\<close> and \<open>str.upper\<close> on ASCII text: only the 26 letters change.\<close>

definition lower_char :: "char \<Rightarrow> char" where
  "lower_char c =
     (if CHR ''A'' \<le> c \<and> c \<le> CHR ''Z'' then char_of (of_char c + (32::nat)) else c)"

definition upper_char :: "char \<Rightarrow> char" where
  "upper_char c =
     (if CHR ''a'' \<le> c \<and> c \<le> CHR ''z'' then char_of (of_char c - (32::nat)) else c)"

definition lower :: "string \<Rightarrow> string" where
  "lower s = map lower_char s"

definition upper :: "string \<Rightarrow> string" where
  "upper s = map upper_char s"

text \<open>\<open>str(n)\<close> on an integer: its decimal digits, with a minus sign when negative.\<close>

definition digit_char :: "nat \<Rightarrow> char" where
  "digit_char d = ''0123456789'' ! d"

function str_nat :: "nat \<Rightarrow> string" where
  "str_nat n = (if n < 10 then [digit_char n] else str_nat (n div 10) @ [digit_char (n mod 10)])"
  by pat_completeness auto
termination
  by (relation "measure (\<lambda>n. n)") auto

definition str_int :: "int \<Rightarrow> string" where
  "str_int i = (if i < 0 then CHR ''-'' # str_nat (nat (- i)) else str_nat (nat i))"

text \<open>
  \<open>s.zfill(width)\<close>: zeros are added on the left up to the width, after a leading sign
  if there is one.
\<close>

definition zfill :: "nat \<Rightarrow> string \<Rightarrow> string" where
  "zfill width s =
     (if width \<le> length s then s
      else (case s of
              c # rest \<Rightarrow>
                (if c = CHR ''+'' \<or> c = CHR ''-''
                 then c # replicate (width - length s) CHR ''0'' @ rest
                 else replicate (width - length s) CHR ''0'' @ s)
            | [] \<Rightarrow> replicate width CHR ''0''))"

section \<open>IdentifierResolver: \<open>get_cik_from_ticker\<close>\<close>

text \<open>
  An entry of the ticker table. \<open>ticker\<close> is read with a default; \<open>cik_str\<close> is
  subscripted, so a missing key raises, and the function's handler turns that into \<open>None\<close>.
\<close>

record ticker_entry =
  entry_ticker :: "string option"
  cik_str :: "int option"

fun find_cik :: "ticker_entry list \<Rightarrow> string \<Rightarrow> string option" where
  "find_cik [] ticker' = None"
| "find_cik (e # es) ticker' =
     (if upper (case entry_ticker e of None \<Rightarrow> [] | Some t \<Rightarrow> t) = upper ticker'
      then (case cik_str e of None \<Rightarrow> None | Some n \<Rightarrow> Some (zfill 10 (str_int n)))
      else find_cik es ticker')"

text \<open>
  \<open>get_cik_from_ticker\<close>, given what the request for the table produced: \<open>Inl\<close> the text
  of the exception raised, \<open>Inr\<close> the entries in the order of \<open>response.json().values()\<close>.
\<close>

definition get_cik_from_ticker :: "string + ticker_entry list \<Rightarrow> string \<Rightarrow> string option" where
  "get_cik_from_ticker response ticker' =
     (case response of Inl msg \<Rightarrow> None | Inr entries \<Rightarrow> find_cik entries ticker')"

section \<open>FinancialExtractor: \<open>get_company_financials\<close>\<close>

text \<open>
  The company-facts payload: \<open>facts \<rightarrow> taxonomy \<rightarrow> concept \<rightarrow> units \<rightarrow> currency \<rightarrow>\<close> array of
  entries. Every key the code reads with \<open>.get\<close> may be missing, so it is optional here.
\<close>

record fact_entry =
  fact_val :: "int option"
  fact_end :: "string option"
  fact_form :: "string option"

record concept_facts =
  units :: "(string \<rightharpoonup> fact_entry list) option"

type_synonym taxonomy = "string \<rightharpoonup> concept_facts"

record company_facts =
  facts :: "(string \<rightharpoonup> taxonomy) option"

text \<open>The dict \<open>{"value": ..., "period_end": ...}\<close> that \<open>get_latest\<close> returns.\<close>

record fin_concept =
  concept_value :: "int option"
  period_end :: "string option"

record snapshot =
  revenue :: "fin_concept option"
  net_income :: "fin_concept option"
  total_assets :: "fin_concept option"
  cash_and_equivalents :: "fin_concept option"
  stockholders_equity :: "fin_concept option"

text \<open>
  \<open>get_company_financials\<close> returns either the five-key dict or \<open>{"error": str(e)}\<close>.
\<close>

datatype financials = Financials snapshot | FinancialsError string

text \<open>\<open>financials.get(key)\<close>: the error dict has none of the concept keys.\<close>

fun fin_get :: "financials \<Rightarrow> (snapshot \<Rightarrow> fin_concept option) \<Rightarrow> fin_concept option" where
  "fin_get (Financials s) key = key s"
| "fin_get (FinancialsError e) key = None"

text \<open>\<open>facts.get("facts", {}).get("us-gaap", {})\<close>\<close>

definition us_gaap_of :: "company_facts \<Rightarrow> taxonomy" where
  "us_gaap_of fs =
     (case (case facts fs of None \<Rightarrow> Map.empty | Some f \<Rightarrow> f) ''us-gaap'' of
        None \<Rightarrow> Map.empty
      | Some t \<Rightarrow> t)"

text \<open>\<open>us_gaap[concept].get("units", {}).get("USD", [])\<close>\<close>

definition usd_values :: "concept_facts \<Rightarrow> fact_entry list" where
  "usd_values cf =
     (case (case units cf of None \<Rightarrow> Map.empty | Some u \<Rightarrow> u) ''USD'' of
        None \<Rightarrow> []
      | Some vs \<Rightarrow> vs)"

text \<open>\<open>[v for v in usd_values if v.get("form") == "10-K"]\<close>\<close>

definition annual :: "fact_entry list \<Rightarrow> fact_entry list" where
  "annual vs = filter (\<lambda>v. fact_form v = Some ''10-K'') vs"

text \<open>The sort key \<open>lambda x: x.get("end", "")\<close>.\<close>

definition end_key :: "fact_entry \<Rightarrow> string" where
  "end_key x = (case fact_end x of None \<Rightarrow> [] | Some e \<Rightarrow> e)"

text \<open>
  The inner function \<open>get_latest\<close>. The guard \<open>if annual\<close> holds exactly when the list has
  a first item, and \<open>max\<close> is called only under it, where it cannot raise.
\<close>

definition get_latest :: "taxonomy \<Rightarrow> string \<Rightarrow> fin_concept option" where
  "get_latest us_gaap concept =
     (case us_gaap concept of
        None \<Rightarrow> None
      | Some cf \<Rightarrow>
          (case annual (usd_values cf) of
             x # rest \<Rightarrow>
               (let latest = max_loop end_key x rest
                in Some \<lparr>concept_value = fact_val latest, period_end = fact_end latest\<rparr>)
           | [] \<Rightarrow> None))"

text \<open>\<open>a or b\<close> on optional dicts; a returned concept dict has two keys, so it is truthy.\<close>

definition or_else :: "'a option \<Rightarrow> 'a option \<Rightarrow> 'a option" where
  "or_else a b = (case a of None \<Rightarrow> b | Some x \<Rightarrow> Some x)"

text \<open>
  \<open>get_company_financials\<close>, given what the HTTP request produced: \<open>Inl msg\<close> when
  \<open>requests.get\<close>, \<open>raise_for_status\<close> or \<open>response.json\<close> raised with text \<open>msg\<close>,
  \<open>Inr payload\<close> otherwise.
\<close>

definition get_company_financials :: "string + company_facts \<Rightarrow> financials" where
  "get_company_financials response =
     (case response of
        Inl msg \<Rightarrow> FinancialsError msg
      | Inr payload \<Rightarrow>
          (let us_gaap = us_gaap_of payload in
           Financials
             \<lparr>revenue = or_else (get_latest us_gaap ''Revenues'')
                 (get_latest us_gaap ''RevenueFromContractWithCustomerExcludingAssessedTax''),
              net_income = get_latest us_gaap ''NetIncomeLoss'',
              total_assets = get_latest us_gaap ''Assets'',
              cash_and_equivalents = get_latest us_gaap ''CashAndCashEquivalentsAtCarryingValue'',
              stockholders_equity = get_latest us_gaap ''StockholdersEquity''\<rparr>))"

section \<open>CapacityScorer: \<open>calculate_capacity_rating\<close>\<close>

text \<open>
  The score is Python's true division of an integer by \<open>1_000_000_000\<close>, the float nearest
  to the exact quotient; the model keeps the exact quotient as a rational. The comparisons
  against 30, 15 and 5 decide the same way on both, since an integer numerator that differs
  from a threshold multiple differs by at least one dollar. The rationale's number
  formatting \<open>f"{v/1e9:.1f}"\<close> is float formatting and is taken as the parameter \<open>fmt\<close>.
\<close>

record capacity_rating =
  score :: rat
  rating :: string
  color :: string
  rationale :: "string list"

text \<open>\<open>(financials.get(key) or {}).get("value", 0) or 0\<close>\<close>

definition value_or_zero :: "financials \<Rightarrow> (snapshot \<Rightarrow> fin_concept option) \<Rightarrow> int" where
  "value_or_zero financials key =
     or_zero (case fin_get financials key of None \<Rightarrow> Some 0 | Some c \<Rightarrow> concept_value c)"

definition calculate_capacity_rating :: "(int \<Rightarrow> string) \<Rightarrow> financials \<Rightarrow> capacity_rating" where
  "calculate_capacity_rating fmt financials =
     (let cash = value_or_zero financials cash_and_equivalents;
          net_income' = value_or_zero financials net_income;
          assets = value_or_zero financials total_assets;
          score' = of_int (cash + net_income') / (1000000000 :: rat);
          (rating', color') =
            (if score' > 30 then (''MAJOR ($1M+)'', ''#27ae60'')
             else if score' > 15 then (''LEADERSHIP ($250K-$1M)'', ''#f39c12'')
             else if score' > 5 then (''PRINCIPAL ($50K-$250K)'', ''#3498db'')
             else (''STANDARD ($10K-$50K)'', ''#95a5a6''))
      in \<lparr>score = score',
          rating = rating',
          color = color',
          rationale =
            [if truthy cash then ''Cash position: $'' @ fmt cash @ ''B''
             else ''Cash data unavailable'',
             if truthy net_income' then ''Net income: $'' @ fmt net_income' @ ''B''
             else ''Net income data unavailable'',
             if truthy assets then ''Total assets: $'' @ fmt assets @ ''B''
             else ''Assets data unavailable'']\<rparr>)"

section \<open>AlignmentScorer: \<open>assess_mission_alignment\<close>\<close>

text \<open>
  The company dict built by \<open>get_company_info\<close>. \<open>assess_mission_alignment\<close> reads only
  \<open>sic_description\<close>, with \<open>.get\<close> and a default, so that key is optional here.
\<close>

record company_info =
  cik :: string
  info_name :: string
  info_ticker :: string
  sic :: string
  sic_description :: "string option"
  state :: string
  fiscal_year_end :: string
  phone :: string
  business_address :: "(string \<times> string) list"

record alignment_assessment =
  level :: string
  alignment_score :: int
  factors :: "string list"

text \<open>\<open>any(term in sic_desc for term in terms)\<close>\<close>

definition any_term_in :: "string list \<Rightarrow> string \<Rightarrow> bool" where
  "any_term_in terms sic_desc = list_ex (\<lambda>term. py_in term sic_desc) terms"

definition healthcare_terms :: "string list" where
  "healthcare_terms = [''health'', ''medical'', ''pharmaceutical'', ''hospital'']"

definition retail_terms :: "string list" where
  "retail_terms = [''retail'', ''store'', ''merchandise'']"

definition manufacturing_terms :: "string list" where
  "manufacturing_terms = [''manufacturing'', ''chemical'', ''industrial'']"

text \<open>
  The function appends to \<open>alignment_factors\<close> and adds to \<open>alignment_score\<close> in four
  steps; each step is one binding of the pair below.
\<close>

definition assess_mission_alignment :: "company_info \<Rightarrow> alignment_assessment" where
  "assess_mission_alignment company =
     (let sic_desc = lower (case sic_description company of None \<Rightarrow> [] | Some d \<Rightarrow> d);
          (factors0, score0) = ([], 0 :: int);
          (factors1, score1) =
            (if any_term_in healthcare_terms sic_desc
             then (factors0 @
                     [''Healthcare sector - STRONG alignment with pediatric health mission''],
                   score0 + 3)
             else (factors0, score0));
          (factors2, score2) =
            (if any_term_in retail_terms sic_desc
             then (factors1 @
                     [''Retail sector - Strong community presence, cause marketing potential''],
                   score1 + 2)
             else (factors1, score1));
          (factors3, score3) =
            (if any_term_in manufacturing_terms sic_desc
             then (factors2 @
                     [''Manufacturing sector - Likely has established CSR programs''],
                   score2 + 1)
             else (factors2, score2));
          (factors4, score4) =
            (factors3 @ [''Minnesota headquarters - Local community connection to CCRF''],
             score3 + 2);
          level' =
            (if score4 \<ge> 4 then ''HIGH''
             else if score4 \<ge> 2 then ''MEDIUM''
             else ''STANDARD'')
      in \<lparr>level = level', alignment_score = score4, factors = factors4\<rparr>)"

section \<open>ResearchOrchestrator: \<open>research_company\<close>, \<open>research_all_companies\<close>, \<open>main\<close>\<close>

record company_config =
  ticker :: string
  name :: string
  city :: string

text \<open>The submissions payload read by \<open>get_company_info\<close>; every key has a default.\<close>

record submission =
  sub_name :: "string option"
  sub_sic :: "string option"
  sicDescription :: "string option"
  stateOfIncorporation :: "string option"
  fiscalYearEnd :: "string option"
  sub_phone :: "string option"
  addresses :: "(string \<rightharpoonup> (string \<times> string) list) option"

definition get_or_empty :: "'a list option \<Rightarrow> 'a list" where
  "get_or_empty x = (case x of None \<Rightarrow> [] | Some v \<Rightarrow> v)"

text \<open>\<open>get_company_info\<close> returns the company dict or \<open>{"error": str(e)}\<close>.\<close>

datatype info_result = Info company_info | InfoError string

definition get_company_info :: "string \<Rightarrow> string \<Rightarrow> string + submission \<Rightarrow> info_result" where
  "get_company_info ticker' cik' response =
     (case response of
        Inl msg \<Rightarrow> InfoError msg
      | Inr data \<Rightarrow>
          Info
            \<lparr>cik = cik',
             info_name = get_or_empty (sub_name data),
             info_ticker = upper ticker',
             sic = get_or_empty (sub_sic data),
             sic_description = Some (get_or_empty (sicDescription data)),
             state = get_or_empty (stateOfIncorporation data),
             fiscal_year_end = get_or_empty (fiscalYearEnd data),
             phone = get_or_empty (sub_phone data),
             business_address =
               get_or_empty ((case addresses data of None \<Rightarrow> Map.empty | Some a \<Rightarrow> a)
                  ''business'')\<rparr>)"

text \<open>
  The foundation lookups are carried as data; \<open>search_foundation\<close> and
  \<open>get_foundation_details\<close> return a dict or \<open>None\<close>.
\<close>

record foundation_search =
  found_name :: "string option"
  ein :: "string option"
  found_city :: "string option"
  found_state :: "string option"

record filing_year =
  year :: "int option"
  filing_revenue :: "int option"
  expenses :: "int option"
  assets :: "int option"
  grants_paid :: "int option"

record foundation_details =
  fd_name :: "string option"
  fd_ein :: string
  fd_total_assets :: "int option"
  fd_total_revenue :: "int option"
  ruling_date :: "string option"
  recent_filings :: "filing_year list"

text \<open>
  What the network answers, as functions of the request: the ticker table, the two SEC
  payloads for a CIK (\<open>Inl\<close> the exception text), the results of the two foundation
  lookups, and the clock.
\<close>

record upstream =
  company_tickers :: "string + ticker_entry list"
  submissions :: "string \<Rightarrow> string + submission"
  companyfacts :: "string \<Rightarrow> string + company_facts"
  search_foundation :: "string \<Rightarrow> foundation_search option"
  get_foundation_details :: "string \<Rightarrow> foundation_details option"
  now :: string

text \<open>
  A research result is a Python dict: an association list from key to value, in insertion
  order. The values are the dicts built above.
\<close>

datatype field =
    FStr string
  | FConfig company_config
  | FCompany company_info
  | FFinancials financials
  | FFoundation "foundation_search option" "foundation_details option"
  | FCapacity capacity_rating
  | FAlignment alignment_assessment

type_synonym result = "(string \<times> field) list"

text \<open>\<open>key in d\<close> on a dict.\<close>

definition has_key :: "string \<Rightarrow> result \<Rightarrow> bool" where
  "has_key k d = (map_of d k \<noteq> None)"

text \<open>\<open>str(foundation_search["ein"])\<close>: \<open>str(None)\<close> is the text \<open>None\<close>.\<close>

definition str_ein :: "foundation_search \<Rightarrow> string" where
  "str_ein fs = (case ein fs of None \<Rightarrow> ''None'' | Some e \<Rightarrow> e)"

definition research_company :: "upstream \<Rightarrow> (int \<Rightarrow> string) \<Rightarrow> company_config \<Rightarrow> result" where
  "research_company up fmt company_config =
     (let ticker' = ticker company_config in
      case get_cik_from_ticker (company_tickers up) ticker' of
        None \<Rightarrow> [(''error'', FStr (''Could not find CIK for '' @ ticker'))]
      | Some cik' \<Rightarrow>
          if cik' = [] then [(''error'', FStr (''Could not find CIK for '' @ ticker'))]
          else
            (case get_company_info ticker' cik' (submissions up cik') of
               InfoError msg \<Rightarrow> [(''error'', FStr msg)]
             | Info company_info \<Rightarrow>
                 (let financials = get_company_financials (companyfacts up cik');
                      foundation_search = search_foundation up (name company_config);
                      foundation_details =
                        (case foundation_search of
                           None \<Rightarrow> None
                         | Some fs \<Rightarrow> get_foundation_details up (str_ein fs));
                      capacity = calculate_capacity_rating fmt financials;
                      alignment = assess_mission_alignment company_info
                  in [(''ticker'', FStr ticker'),
                      (''config'', FConfig company_config),
                      (''company'', FCompany company_info),
                      (''financials'', FFinancials financials),
                      (''foundation'', FFoundation foundation_search foundation_details),
                      (''capacity'', FCapacity capacity),
                      (''alignment'', FAlignment alignment),
                      (''researched_at'', FStr (now up))])))"

definition research_all_companies ::
  "upstream \<Rightarrow> (int \<Rightarrow> string) \<Rightarrow> company_config list \<Rightarrow> result list" where
  "research_all_companies up fmt companies = map (research_company up fmt) companies"

text \<open>
  The sort key \<open>lambda x: x["capacity"]["score"]\<close>: a missing key raises \<open>KeyError\<close>,
  subscripting a string with a string raises \<open>TypeError\<close>.
\<close>

fun score_of_field :: "field \<Rightarrow> py_error + rat" where
  "score_of_field (FCapacity c) = Inr (score c)"
| "score_of_field (FStr s) = Inl TypeError"
| "score_of_field other = Inl KeyError"

definition capacity_score :: "result \<Rightarrow> py_error + rat" where
  "capacity_score x =
     (case map_of x ''capacity'' of None \<Rightarrow> Inl KeyError | Some f \<Rightarrow> score_of_field f)"

text \<open>
  \<open>sorted(xs, key=f, reverse=True)\<close>: the keys are computed first, in order, and the first
  exception ends the call; the list is then reversed, sorted stably in ascending key
  order, and reversed back.
\<close>

fun decorate :: "('a \<Rightarrow> py_error + 'k) \<Rightarrow> 'a list \<Rightarrow> py_error + ('k \<times> 'a) list" where
  "decorate key [] = Inr []"
| "decorate key (x # xs) =
     (case key x of
        Inl e \<Rightarrow> Inl e
      | Inr k \<Rightarrow> (case decorate key xs of Inl e \<Rightarrow> Inl e | Inr kxs \<Rightarrow> Inr ((k, x) # kxs)))"

definition sorted_reverse ::
  "('a \<Rightarrow> py_error + 'k::linorder) \<Rightarrow> 'a list \<Rightarrow> py_error + 'a list" where
  "sorted_reverse key xs =
     (case decorate key xs of
        Inl e \<Rightarrow> Inl e
      | Inr kxs \<Rightarrow> Inr (map snd (rev (sort_key fst (rev kxs)))))"

text \<open>\<open>[r for r in results if "error" not in r]\<close>\<close>

definition valid_results :: "result list \<Rightarrow> result list" where
  "valid_results results = filter (\<lambda>r. \<not> has_key ''error'' r) results"

text \<open>The priority ranking printed by \<open>main\<close>.\<close>

definition priority_ranking :: "result list \<Rightarrow> py_error + result list" where
  "priority_ranking results = sorted_reverse capacity_score (valid_results results)"

text \<open>
  The priority ranking drawn by \<open>create_visualizations\<close>, which returns early (\<open>None\<close>
  here) when no result is valid.
\<close>

definition dashboard_ranking :: "result list \<Rightarrow> (py_error + result list) option" where
  "dashboard_ranking results =
     (if valid_results results = [] then None
      else Some (sorted_reverse capacity_score (valid_results results)))"

definition main :: "upstream \<Rightarrow> (int \<Rightarrow> string) \<Rightarrow> company_config list \<Rightarrow> py_error + result list" where
  "main up fmt companies = priority_ranking (research_all_companies up fmt companies)"

text \<open>The configured company list \<open>MINNESOTA_COMPANIES\<close>.\<close>

definition MINNESOTA_COMPANIES :: "company_config list" where
  "MINNESOTA_COMPANIES =
     [\<lparr>ticker = ''TGT'', name = ''Target Corporation'', city = ''Minneapolis''\<rparr>,
      \<lparr>ticker = ''MMM'', name = ''3M Company'', city = ''St. Paul''\<rparr>,
      \<lparr>ticker = ''UNH'', name = ''UnitedHealth Group'', city = ''Minnetonka''\<rparr>]"

section \<open>Notions used to state the properties\<close>

text \<open>
  The filtered series of a concept: its USD entries whose form is \<open>10-K\<close>, and no entry
  at all when the concept key is absent.
\<close>

definition annual_series :: "taxonomy \<Rightarrow> string \<Rightarrow> fact_entry list" where
  "annual_series us_gaap concept =
     (case us_gaap concept of None \<Rightarrow> [] | Some cf \<Rightarrow> annual (usd_values cf))"

text \<open>A missing concept, or a missing value inside it, read as zero.\<close>

fun zero_if_missing :: "fin_concept option \<Rightarrow> int" where
  "zero_if_missing None = 0"
| "zero_if_missing (Some c) = (case concept_value c of None \<Rightarrow> 0 | Some v \<Rightarrow> v)"

definition cash_plus_net_income :: "financials \<Rightarrow> int" where
  "cash_plus_net_income fin =
     zero_if_missing (fin_get fin cash_and_equivalents) + zero_if_missing (fin_get fin net_income)"

text \<open>The order of the four tiers: STANDARD < PRINCIPAL < LEADERSHIP < MAJOR.\<close>

definition tier_rank :: "string \<Rightarrow> nat" where
  "tier_rank r =
     (if r = ''MAJOR ($1M+)'' then 3
      else if r = ''LEADERSHIP ($250K-$1M)'' then 2
      else if r = ''PRINCIPAL ($50K-$250K)'' then 1
      else 0)"

section \<open>Example inputs\<close>

definition entry :: "int \<Rightarrow> string \<Rightarrow> string \<Rightarrow> fact_entry" where
  "entry v e f = \<lparr>fact_val = Some v, fact_end = Some e, fact_form = Some f\<rparr>"

definition usd_series :: "fact_entry list \<Rightarrow> concept_facts" where
  "usd_series vs = \<lparr>units = Some [''USD'' \<mapsto> vs]\<rparr>"

text \<open>
  A payload whose net-income series is not in date order and ends with a later quarterly
  entry, whose primary revenue concept has only a quarterly entry, and which has no
  total-assets concept.
\<close>

definition example_facts :: company_facts where
  "example_facts =
     \<lparr>facts = Some [''us-gaap'' \<mapsto>
        [''NetIncomeLoss'' \<mapsto>
           usd_series [entry 1000000000 ''2023-01-28'' ''10-K'',
                       entry 4000000000 ''2024-02-03'' ''10-K'',
                       entry 3000000000 ''2022-01-29'' ''10-K'',
                       entry 900000000 ''2024-05-04'' ''10-Q''],
         ''CashAndCashEquivalentsAtCarryingValue'' \<mapsto>
           usd_series [entry 2000000000 ''2024-02-03'' ''10-K''],
         ''Revenues'' \<mapsto>
           usd_series [entry 25000000000 ''2024-05-04'' ''10-Q''],
         ''RevenueFromContractWithCustomerExcludingAssessedTax'' \<mapsto>
           usd_series [entry 107000000000 ''2024-02-03'' ''10-K'']]]\<rparr>"

text \<open>
  A revenue series that starts with an annual entry without a period end, is not in date
  order, reports the latest period twice (the second entry a restatement), and ends with
  a later quarterly entry.
\<close>

definition example_revenue_series :: "fact_entry list" where
  "example_revenue_series =
     [\<lparr>fact_val = Some 90000000000, fact_end = None, fact_form = Some ''10-K''\<rparr>,
      entry 100000000000 ''2023-01-28'' ''10-K'',
      entry 107000000000 ''2024-02-03'' ''10-K'',
      entry 108000000000 ''2024-02-03'' ''10-K'',
      entry 106000000000 ''2022-01-29'' ''10-K'',
      entry 30000000000 ''2024-05-04'' ''10-Q'']"

text \<open>A payload with the given series for the two revenue concepts and nothing else.\<close>

definition example_revenue_facts :: "fact_entry list \<Rightarrow> fact_entry list \<Rightarrow> company_facts" where
  "example_revenue_facts primary alternate =
     \<lparr>facts = Some [''us-gaap'' \<mapsto>
        [''Revenues'' \<mapsto> usd_series primary,
         ''RevenueFromContractWithCustomerExcludingAssessedTax'' \<mapsto> usd_series alternate]]\<rparr>"

definition reported :: "int \<Rightarrow> fin_concept option" where
  "reported v = Some \<lparr>concept_value = Some v, period_end = Some ''2024-12-31''\<rparr>"

definition example_snapshot :: "int \<Rightarrow> int \<Rightarrow> financials" where
  "example_snapshot cash ni =
     Financials \<lparr>revenue = None, net_income = reported ni, total_assets = None,
                 cash_and_equivalents = reported cash, stockholders_equity = None\<rparr>"

definition example_company :: "string \<Rightarrow> company_info" where
  "example_company description =
     \<lparr>cik = ''0000000001'', info_name = ''Example'', info_ticker = ''EX'', sic = ''0000'',
      sic_description = Some description, state = ''MN'', fiscal_year_end = ''1231'',
      phone = [], business_address = []\<rparr>"

text \<open>
  An upstream that resolves TGT and UNH but not MMM, and serves the same facts to both
  resolved companies apart from the net income.
\<close>

definition example_payload :: "int \<Rightarrow> company_facts" where
  "example_payload ni =
     \<lparr>facts = Some [''us-gaap'' \<mapsto>
        [''NetIncomeLoss'' \<mapsto> usd_series [entry ni ''2024-12-31'' ''10-K''],
         ''CashAndCashEquivalentsAtCarryingValue'' \<mapsto>
           usd_series [entry 10000000000 ''2024-12-31'' ''10-K'']]]\<rparr>"

definition example_submission :: "string \<Rightarrow> submission" where
  "example_submission description =
     \<lparr>sub_name = None, sub_sic = None, sicDescription = Some description,
      stateOfIncorporation = Some ''MN'', fiscalYearEnd = None, sub_phone = None,
      addresses = None\<rparr>"

text \<open>The three configured companies, by name.\<close>

definition tgt :: company_config where
  "tgt = \<lparr>ticker = ''TGT'', name = ''Target Corporation'', city = ''Minneapolis''\<rparr>"

definition mmm :: company_config where
  "mmm = \<lparr>ticker = ''MMM'', name = ''3M Company'', city = ''St. Paul''\<rparr>"

definition unh :: company_config where
  "unh = \<lparr>ticker = ''UNH'', name = ''UnitedHealth Group'', city = ''Minnetonka''\<rparr>"

text \<open>A fourth configuration: the ticker of \<open>tgt\<close> under another city.\<close>

definition tgt_edina :: company_config where
  "tgt_edina = \<lparr>ticker = ''TGT'', name = ''Target Corporation'', city = ''Edina''\<rparr>"

text \<open>A stand-in for the float formatting, which the model takes as a parameter.\<close>

definition example_fmt :: "int \<Rightarrow> string" where
  "example_fmt v = ''?''"

definition example_upstream :: upstream where
  "example_upstream =
     \<lparr>company_tickers =
        Inr [\<lparr>entry_ticker = Some ''UNH'', cik_str = Some 731766\<rparr>,
             \<lparr>entry_ticker = Some ''TGT'', cik_str = Some 27419\<rparr>],
      submissions = (\<lambda>c. if c = ''0000027419''
         then Inr (example_submission ''Retail-Variety Stores'')
         else Inr (example_submission ''Hospital & Medical Service Plans'')),
      companyfacts = (\<lambda>c. if c = ''0000027419''
         then Inr (example_payload 4000000000)
         else Inr (example_payload 25000000000)),
      search_foundation = (\<lambda>n. None),
      get_foundation_details = (\<lambda>e. None),
      now = ''2026-01-15T09:00:00''\<rparr>"

section \<open>The financial extractor selects the latest annual entry\<close>

lemma max_loop_mem: "max_loop key b xs \<in> set (b # xs)"
  by (induction xs arbitrary: b) auto

lemma max_loop_ge_best: "key b \<le> key (max_loop key b xs)"
proof (induction xs arbitrary: b)
  case Nil
  show ?case by simp
next
  case (Cons x xs)
  have "key b \<le> key (if key b < key x then x else b)" by auto
  also have "\<dots> \<le> key (max_loop key (if key b < key x then x else b) xs)"
    by (rule Cons.IH)
  finally show ?case by simp
qed

lemma max_loop_ge: "y \<in> set (b # xs) \<Longrightarrow> key y \<le> key (max_loop key b xs)"
proof (induction xs arbitrary: b)
  case Nil
  then show ?case by simp
next
  case (Cons x xs)
  let ?b' = "if key b < key x then x else b"
  from Cons.prems consider "y = b" | "y = x" | "y \<in> set xs" by auto
  then show ?case
  proof cases
    case 1
    then show ?thesis using max_loop_ge_best[of key b "x # xs"] by simp
  next
    case 2
    have "key x \<le> key ?b'" by auto
    also have "\<dots> \<le> key (max_loop key ?b' xs)" by (rule max_loop_ge_best)
    finally show ?thesis using 2 by simp
  next
    case 3
    then have "y \<in> set (?b' # xs)" by simp
    from Cons.IH[OF this] show ?thesis by simp
  qed
qed

lemma get_latest_empty: "annual_series us c = [] \<Longrightarrow> get_latest us c = None"
  by (simp add: annual_series_def get_latest_def split: option.splits)

lemma get_latest_nonempty:
  assumes "annual_series us c \<noteq> []"
  shows "\<exists>latest\<in>set (annual_series us c).
           get_latest us c = Some \<lparr>concept_value = fact_val latest, period_end = fact_end latest\<rparr> \<and>
           (\<forall>v\<in>set (annual_series us c). end_key v \<le> end_key latest)"
proof -
  from assms obtain cf where cf: "us c = Some cf" and ne: "annual (usd_values cf) \<noteq> []"
    by (auto simp: annual_series_def split: option.splits)
  from ne obtain x rest where xs: "annual (usd_values cf) = x # rest"
    by (cases "annual (usd_values cf)") auto
  define m where "m = max_loop end_key x rest"
  have mem: "m \<in> set (annual (usd_values cf))"
    unfolding m_def xs by (rule max_loop_mem)
  have ge: "\<forall>y\<in>set (annual (usd_values cf)). end_key y \<le> end_key m"
    unfolding m_def xs using max_loop_ge[of _ x rest end_key] by blast
  have "get_latest us c = Some \<lparr>concept_value = fact_val m, period_end = fact_end m\<rparr>"
    using cf xs by (simp add: get_latest_def m_def Let_def)
  with mem ge cf show ?thesis by (auto simp: annual_series_def)
qed

lemma annual_series_entries:
  "v \<in> set (annual_series us c) \<longleftrightarrow>
     (\<exists>cf u vs. us c = Some cf \<and> units cf = Some u \<and> u ''USD'' = Some vs \<and> v \<in> set vs \<and>
        fact_form v = Some ''10-K'')"
proof (cases "us c")
  case None
  then show ?thesis by (simp add: annual_series_def)
next
  case (Some cf)
  show ?thesis
  proof (cases "units cf")
    case None
    then show ?thesis using Some by (simp add: annual_series_def usd_values_def annual_def)
  next
    case u: (Some u)
    show ?thesis
      using Some u by (cases "u ''USD''") (simp_all add: annual_series_def usd_values_def annual_def)
  qed
qed

text \<open>
  Claim C1. For every raw fact set and every concept, \<open>get_latest\<close> returns nothing when
  the concept key is absent or when its series of USD entries with form \<open>10-K\<close> is empty.
  Otherwise it returns the value and period end of an entry of that series whose
  period-end key is greater than or equal, as a string, to that of every entry of the
  series, wherever the entry stands in the array. A parsed payload always yields the
  five-key snapshot, never the error dict, and each tracked concept of the snapshot is
  what \<open>get_latest\<close> selects.
\<close>

theorem get_latest_selects_max_period_end:
  "(us_gaap concept = None \<longrightarrow> get_latest us_gaap concept = None) \<and>
   (annual_series us_gaap concept = [] \<longrightarrow> get_latest us_gaap concept = None) \<and>
   (annual_series us_gaap concept \<noteq> [] \<longrightarrow>
      (\<exists>latest\<in>set (annual_series us_gaap concept).
         get_latest us_gaap concept =
           Some \<lparr>concept_value = fact_val latest, period_end = fact_end latest\<rparr> \<and>
         (\<forall>v\<in>set (annual_series us_gaap concept). end_key v \<le> end_key latest))) \<and>
   (\<exists>s. get_company_financials (Inr payload) = Financials s \<and>
        net_income s = get_latest (us_gaap_of payload) ''NetIncomeLoss'' \<and>
        total_assets s = get_latest (us_gaap_of payload) ''Assets'' \<and>
        cash_and_equivalents s =
          get_latest (us_gaap_of payload) ''CashAndCashEquivalentsAtCarryingValue'' \<and>
        stockholders_equity s = get_latest (us_gaap_of payload) ''StockholdersEquity'')"
proof (intro conjI impI)
  assume "us_gaap concept = None"
  then show "get_latest us_gaap concept = None" by (simp add: get_latest_def)
next
  assume "annual_series us_gaap concept = []"
  then show "get_latest us_gaap concept = None" by (rule get_latest_empty)
next
  assume "annual_series us_gaap concept \<noteq> []"
  then show "\<exists>latest\<in>set (annual_series us_gaap concept).
         get_latest us_gaap concept =
           Some \<lparr>concept_value = fact_val latest, period_end = fact_end latest\<rparr> \<and>
         (\<forall>v\<in>set (annual_series us_gaap concept). end_key v \<le> end_key latest)"
    by (rule get_latest_nonempty)
next
  show "\<exists>s. get_company_financials (Inr payload) = Financials s \<and>
        net_income s = get_latest (us_gaap_of payload) ''NetIncomeLoss'' \<and>
        total_assets s = get_latest (us_gaap_of payload) ''Assets'' \<and>
        cash_and_equivalents s =
          get_latest (us_gaap_of payload) ''CashAndCashEquivalentsAtCarryingValue'' \<and>
        stockholders_equity s = get_latest (us_gaap_of payload) ''StockholdersEquity''"
    by (simp add: get_company_financials_def Let_def)
qed

subsection \<open>Evaluating the example payload\<close>

lemma example_us_gaap:
  "us_gaap_of example_facts =
     [''NetIncomeLoss'' \<mapsto>
           usd_series [entry 1000000000 ''2023-01-28'' ''10-K'',
                       entry 4000000000 ''2024-02-03'' ''10-K'',
                       entry 3000000000 ''2022-01-29'' ''10-K'',
                       entry 900000000 ''2024-05-04'' ''10-Q''],
         ''CashAndCashEquivalentsAtCarryingValue'' \<mapsto>
           usd_series [entry 2000000000 ''2024-02-03'' ''10-K''],
         ''Revenues'' \<mapsto>
           usd_series [entry 25000000000 ''2024-05-04'' ''10-Q''],
         ''RevenueFromContractWithCustomerExcludingAssessedTax'' \<mapsto>
           usd_series [entry 107000000000 ''2024-02-03'' ''10-K'']]"
  by (simp add: us_gaap_of_def example_facts_def)

lemmas example_simps =
  example_us_gaap annual_series_def usd_series_def usd_values_def annual_def entry_def
  get_latest_def end_key_def Let_def

text \<open>
  On the example payload the net-income series has three annual entries out of date
  order; the one ending 2024-02-03 is selected, although a quarterly entry ends later.
\<close>

theorem get_latest_selects_max_period_end_witness:
  "annual_series (us_gaap_of example_facts) ''NetIncomeLoss'' \<noteq> [] \<and>
   get_latest (us_gaap_of example_facts) ''NetIncomeLoss'' =
     Some \<lparr>concept_value = Some 4000000000, period_end = Some ''2024-02-03''\<rparr> \<and>
   annual_series (us_gaap_of example_facts) ''Revenues'' = [] \<and>
   get_latest (us_gaap_of example_facts) ''Revenues'' = None \<and>
   us_gaap_of example_facts ''Assets'' = None \<and>
   get_latest (us_gaap_of example_facts) ''Assets'' = None \<and>
   fin_get (get_company_financials (Inr example_facts)) net_income =
     Some \<lparr>concept_value = Some 4000000000, period_end = Some ''2024-02-03''\<rparr>"
proof -
  have ne: "annual_series (us_gaap_of example_facts) ''NetIncomeLoss'' \<noteq> []"
    and rev: "annual_series (us_gaap_of example_facts) ''Revenues'' = []"
    and assets: "us_gaap_of example_facts ''Assets'' = None"
    by (simp_all add: example_simps)
  note c1 = get_latest_selects_max_period_end[of "us_gaap_of example_facts" _ example_facts]
  from c1[of "''NetIncomeLoss''"] ne obtain latest where
    latest: "latest \<in> set (annual_series (us_gaap_of example_facts) ''NetIncomeLoss'')"
      "get_latest (us_gaap_of example_facts) ''NetIncomeLoss'' =
         Some \<lparr>concept_value = fact_val latest, period_end = fact_end latest\<rparr>"
      "\<forall>v\<in>set (annual_series (us_gaap_of example_facts) ''NetIncomeLoss''). end_key v \<le> end_key latest"
    by blast
  from latest(1,3) have "latest = entry 4000000000 ''2024-02-03'' ''10-K''"
    by (auto simp: example_simps)
  with latest(2) have sel: "get_latest (us_gaap_of example_facts) ''NetIncomeLoss'' =
     Some \<lparr>concept_value = Some 4000000000, period_end = Some ''2024-02-03''\<rparr>"
    by (simp add: entry_def)
  from c1[of "''NetIncomeLoss''"] obtain s where
    s: "get_company_financials (Inr example_facts) = Financials s"
       "net_income s = get_latest (us_gaap_of example_facts) ''NetIncomeLoss''"
    by blast
  from c1[of "''Revenues''"] rev have "get_latest (us_gaap_of example_facts) ''Revenues'' = None"
    by blast
  moreover from c1[of "''Assets''"] assets have "get_latest (us_gaap_of example_facts) ''Assets'' = None"
    by blast
  ultimately show ?thesis using ne rev assets sel s by simp
qed

subsection \<open>The revenue fallback\<close>

text \<open>
  The item \<open>max\<close> returns splits the list: every item before it has a strictly smaller
  key, every item after it a key that is not greater.
\<close>

lemma max_loop_first:
  "\<exists>pre post. b # xs = pre @ max_loop key b xs # post \<and>
     (\<forall>v\<in>set pre. key v < key (max_loop key b xs)) \<and>
     (\<forall>v\<in>set post. key v \<le> key (max_loop key b xs))"
proof (induction xs arbitrary: b)
  case Nil
  have "[b] = [] @ max_loop key b [] # []" by simp
  then show ?case by fastforce
next
  case (Cons x xs)
  show ?case
  proof (cases "key b < key x")
    case True
    define m where "m = max_loop key x xs"
    have m: "max_loop key b (x # xs) = m" using True by (simp add: m_def)
    from Cons.IH[of x] obtain pre post where
      dec: "x # xs = pre @ m # post"
      and lt: "\<forall>v\<in>set pre. key v < key m"
      and le: "\<forall>v\<in>set post. key v \<le> key m"
      unfolding m_def by blast
    have "key x \<le> key m" unfolding m_def by (rule max_loop_ge_best)
    with True have "key b < key m" by simp
    with lt have "\<forall>v\<in>set (b # pre). key v < key m" by simp
    moreover have "b # x # xs = (b # pre) @ m # post" using dec by simp
    ultimately show ?thesis unfolding m using le by blast
  next
    case False
    define m where "m = max_loop key b xs"
    have m: "max_loop key b (x # xs) = m" using False by (simp add: m_def)
    from Cons.IH[of b] obtain pre post where
      dec: "b # xs = pre @ m # post"
      and lt: "\<forall>v\<in>set pre. key v < key m"
      and le: "\<forall>v\<in>set post. key v \<le> key m"
      unfolding m_def by blast
    from False have xb: "key x \<le> key b" by simp
    show ?thesis
    proof (cases pre)
      case Nil
      with dec have mb: "m = b" and post: "post = xs" by simp_all
      have "b # x # xs = [] @ m # (x # xs)" using mb by simp
      moreover have "\<forall>v\<in>set (x # xs). key v \<le> key m"
        using xb le mb post by simp
      moreover have "\<forall>v\<in>set ([] :: 'a list). key v < key m" by simp
      ultimately show ?thesis unfolding m by blast
    next
      case (Cons p pre')
      with dec have p: "p = b" and xs: "xs = pre' @ m # post" by simp_all
      have bm: "key b < key m" using lt Cons p by simp
      with xb have "key x < key m" by simp
      with bm lt Cons have "\<forall>v\<in>set (b # x # pre'). key v < key m" by simp
      moreover have "b # x # xs = (b # x # pre') @ m # post" using xs by simp
      ultimately show ?thesis unfolding m using le by blast
    qed
  qed
qed

lemma get_latest_first_latest:
  assumes "annual_series us c \<noteq> []"
  shows "\<exists>pre latest post.
           annual_series us c = pre @ latest # post \<and>
           (\<forall>v\<in>set pre. end_key v < end_key latest) \<and>
           (\<forall>v\<in>set post. end_key v \<le> end_key latest) \<and>
           get_latest us c = Some \<lparr>concept_value = fact_val latest, period_end = fact_end latest\<rparr>"
proof -
  from assms obtain cf where cf: "us c = Some cf" and ne: "annual (usd_values cf) \<noteq> []"
    by (auto simp: annual_series_def split: option.splits)
  from ne obtain x rest where xs: "annual (usd_values cf) = x # rest"
    by (cases "annual (usd_values cf)") auto
  have series: "annual_series us c = x # rest" by (simp add: annual_series_def cf xs)
  have sel: "get_latest us c =
      Some \<lparr>concept_value = fact_val (max_loop end_key x rest),
            period_end = fact_end (max_loop end_key x rest)\<rparr>"
    using cf xs by (simp add: get_latest_def Let_def)
  from max_loop_first[of x rest end_key] series sel show ?thesis by metis
qed


lemma revenue_or_else:
  "fin_get (get_company_financials (Inr payload)) revenue =
     (if annual_series (us_gaap_of payload) ''Revenues'' \<noteq> []
      then get_latest (us_gaap_of payload) ''Revenues''
      else get_latest (us_gaap_of payload) ''RevenueFromContractWithCustomerExcludingAssessedTax'')"
proof (cases "annual_series (us_gaap_of payload) ''Revenues'' = []")
  case True
  then have "get_latest (us_gaap_of payload) ''Revenues'' = None" by (rule get_latest_empty)
  with True show ?thesis by (simp add: get_company_financials_def Let_def or_else_def)
next
  case False
  from get_latest_nonempty[OF this] obtain c where
    "get_latest (us_gaap_of payload) ''Revenues'' = Some c" by blast
  with False show ?thesis by (simp add: get_company_financials_def Let_def or_else_def)
qed

text \<open>
  Claim C3. When the annual series of \<open>Revenues\<close> is non-empty, the revenue of the
  snapshot is the value and period end of the latest entry of that series: the entry whose
  period-end key is strictly greater than that of every entry before it and not smaller
  than that of any entry after it. When that series is empty and the annual series of
  \<open>RevenueFromContractWithCustomerExcludingAssessedTax\<close> is non-empty, the revenue is the
  latest entry of the alternate series in the same sense. When both are empty, revenue is
  absent. In the first two cases the revenue is also what \<open>get_latest\<close> returns for the
  concept.
\<close>

theorem revenue_fallback_first_nonempty:
  "(annual_series (us_gaap_of payload) ''Revenues'' \<noteq> [] \<longrightarrow>
      fin_get (get_company_financials (Inr payload)) revenue =
        get_latest (us_gaap_of payload) ''Revenues'' \<and>
      (\<exists>pre latest post.
         annual_series (us_gaap_of payload) ''Revenues'' = pre @ latest # post \<and>
         (\<forall>v\<in>set pre. end_key v < end_key latest) \<and>
         (\<forall>v\<in>set post. end_key v \<le> end_key latest) \<and>
         fin_get (get_company_financials (Inr payload)) revenue =
           Some \<lparr>concept_value = fact_val latest, period_end = fact_end latest\<rparr>)) \<and>
   (annual_series (us_gaap_of payload) ''Revenues'' = [] \<and>
    annual_series (us_gaap_of payload)
      ''RevenueFromContractWithCustomerExcludingAssessedTax'' \<noteq> [] \<longrightarrow>
      fin_get (get_company_financials (Inr payload)) revenue =
        get_latest (us_gaap_of payload)
          ''RevenueFromContractWithCustomerExcludingAssessedTax'' \<and>
      (\<exists>pre latest post.
         annual_series (us_gaap_of payload)
           ''RevenueFromContractWithCustomerExcludingAssessedTax'' = pre @ latest # post \<and>
         (\<forall>v\<in>set pre. end_key v < end_key latest) \<and>
         (\<forall>v\<in>set post. end_key v \<le> end_key latest) \<and>
         fin_get (get_company_financials (Inr payload)) revenue =
           Some \<lparr>concept_value = fact_val latest, period_end = fact_end latest\<rparr>)) \<and>
   (annual_series (us_gaap_of payload) ''Revenues'' = [] \<and>
    annual_series (us_gaap_of payload)
      ''RevenueFromContractWithCustomerExcludingAssessedTax'' = [] \<longrightarrow>
      fin_get (get_company_financials (Inr payload)) revenue = None)"
proof (intro conjI impI)
  assume p: "annual_series (us_gaap_of payload) ''Revenues'' \<noteq> []"
  then show eq: "fin_get (get_company_financials (Inr payload)) revenue =
        get_latest (us_gaap_of payload) ''Revenues''"
    by (simp add: revenue_or_else)
  from get_latest_first_latest[OF p] show "\<exists>pre latest post.
         annual_series (us_gaap_of payload) ''Revenues'' = pre @ latest # post \<and>
         (\<forall>v\<in>set pre. end_key v < end_key latest) \<and>
         (\<forall>v\<in>set post. end_key v \<le> end_key latest) \<and>
         fin_get (get_company_financials (Inr payload)) revenue =
           Some \<lparr>concept_value = fact_val latest, period_end = fact_end latest\<rparr>"
    unfolding eq .
next
  assume "annual_series (us_gaap_of payload) ''Revenues'' = [] \<and>
    annual_series (us_gaap_of payload)
      ''RevenueFromContractWithCustomerExcludingAssessedTax'' \<noteq> []"
  then have p: "annual_series (us_gaap_of payload) ''Revenues'' = []"
    and a: "annual_series (us_gaap_of payload)
      ''RevenueFromContractWithCustomerExcludingAssessedTax'' \<noteq> []" by simp_all
  from p show eq: "fin_get (get_company_financials (Inr payload)) revenue =
        get_latest (us_gaap_of payload)
          ''RevenueFromContractWithCustomerExcludingAssessedTax''"
    by (simp add: revenue_or_else)
  from get_latest_first_latest[OF a] show "\<exists>pre latest post.
         annual_series (us_gaap_of payload)
           ''RevenueFromContractWithCustomerExcludingAssessedTax'' = pre @ latest # post \<and>
         (\<forall>v\<in>set pre. end_key v < end_key latest) \<and>
         (\<forall>v\<in>set post. end_key v \<le> end_key latest) \<and>
         fin_get (get_company_financials (Inr payload)) revenue =
           Some \<lparr>concept_value = fact_val latest, period_end = fact_end latest\<rparr>"
    unfolding eq .
next
  assume "annual_series (us_gaap_of payload) ''Revenues'' = [] \<and>
    annual_series (us_gaap_of payload)
      ''RevenueFromContractWithCustomerExcludingAssessedTax'' = []"
  then show "fin_get (get_company_financials (Inr payload)) revenue = None"
    by (simp add: revenue_or_else get_latest_empty)
qed

lemma example_revenue_us_gaap:
  "us_gaap_of (example_revenue_facts primary alternate) =
     [''Revenues'' \<mapsto> usd_series primary,
      ''RevenueFromContractWithCustomerExcludingAssessedTax'' \<mapsto> usd_series alternate]"
  by (simp add: us_gaap_of_def example_revenue_facts_def)

lemma example_revenue_annual:
  "annual_series (us_gaap_of (example_revenue_facts primary alternate)) ''Revenues'' =
     annual primary"
  "annual_series (us_gaap_of (example_revenue_facts primary alternate))
     ''RevenueFromContractWithCustomerExcludingAssessedTax'' = annual alternate"
  by (simp_all add: example_revenue_us_gaap annual_series_def usd_series_def usd_values_def)

lemma example_revenue_series_annual:
  "annual example_revenue_series =
     [\<lparr>fact_val = Some 90000000000, fact_end = None, fact_form = Some ''10-K''\<rparr>,
      entry 100000000000 ''2023-01-28'' ''10-K'',
      entry 107000000000 ''2024-02-03'' ''10-K'',
      entry 108000000000 ''2024-02-03'' ''10-K'',
      entry 106000000000 ''2022-01-29'' ''10-K'']"
  by (simp add: example_revenue_series_def annual_def entry_def)

lemma example_revenue_latest:
  assumes dec: "annual example_revenue_series = pre @ latest # post"
    and lt: "\<forall>v\<in>set pre. end_key v < end_key latest"
    and le: "\<forall>v\<in>set post. end_key v \<le> end_key latest"
  shows "latest = entry 107000000000 ''2024-02-03'' ''10-K''"
  using dec lt le unfolding example_revenue_series_annual
  by (auto simp: Cons_eq_append_conv entry_def end_key_def)


text \<open>
  The example series has five annual entries; the latest period, 2024-02-03, is the third
  entry, with value 107 billion. That value is the revenue when the series is the primary
  one (although the alternate has an annual entry of a later date), and when it is the
  alternate one and the primary series has only a quarterly entry. With a quarterly
  primary entry and an empty alternate series, revenue is absent.
\<close>

theorem revenue_fallback_first_nonempty_witness:
  "annual_series (us_gaap_of (example_revenue_facts example_revenue_series
      [entry 1000000000 ''2025-02-01'' ''10-K''])) ''Revenues'' \<noteq> [] \<and>
   fin_get (get_company_financials (Inr (example_revenue_facts example_revenue_series
      [entry 1000000000 ''2025-02-01'' ''10-K'']))) revenue =
     Some \<lparr>concept_value = Some 107000000000, period_end = Some ''2024-02-03''\<rparr> \<and>
   annual_series (us_gaap_of (example_revenue_facts
      [entry 30000000000 ''2024-05-04'' ''10-Q''] example_revenue_series)) ''Revenues'' = [] \<and>
   annual_series (us_gaap_of (example_revenue_facts
      [entry 30000000000 ''2024-05-04'' ''10-Q''] example_revenue_series))
      ''RevenueFromContractWithCustomerExcludingAssessedTax'' \<noteq> [] \<and>
   fin_get (get_company_financials (Inr (example_revenue_facts
      [entry 30000000000 ''2024-05-04'' ''10-Q''] example_revenue_series))) revenue =
     Some \<lparr>concept_value = Some 107000000000, period_end = Some ''2024-02-03''\<rparr> \<and>
   annual_series (us_gaap_of (example_revenue_facts
      [entry 30000000000 ''2024-05-04'' ''10-Q''] [])) ''Revenues'' = [] \<and>
   annual_series (us_gaap_of (example_revenue_facts
      [entry 30000000000 ''2024-05-04'' ''10-Q''] []))
      ''RevenueFromContractWithCustomerExcludingAssessedTax'' = [] \<and>
   fin_get (get_company_financials (Inr (example_revenue_facts
      [entry 30000000000 ''2024-05-04'' ''10-Q''] []))) revenue = None"
proof -
  let ?quarterly = "[entry 30000000000 ''2024-05-04'' ''10-Q'']"
  let ?A = "example_revenue_facts example_revenue_series [entry 1000000000 ''2025-02-01'' ''10-K'']"
  let ?B = "example_revenue_facts ?quarterly example_revenue_series"
  let ?C = "example_revenue_facts ?quarterly []"
  have q: "annual ?quarterly = []" and n: "annual [] = []"
    by (simp_all add: annual_def entry_def)
  have s: "annual example_revenue_series \<noteq> []"
    by (simp add: example_revenue_series_annual)
  have a1: "annual_series (us_gaap_of ?A) ''Revenues'' \<noteq> []"
    by (simp add: example_revenue_annual s)
  have b1: "annual_series (us_gaap_of ?B) ''Revenues'' = []"
    and b2: "annual_series (us_gaap_of ?B)
      ''RevenueFromContractWithCustomerExcludingAssessedTax'' \<noteq> []"
    by (simp_all add: example_revenue_annual s q)
  have c1: "annual_series (us_gaap_of ?C) ''Revenues'' = []"
    and c2: "annual_series (us_gaap_of ?C)
      ''RevenueFromContractWithCustomerExcludingAssessedTax'' = []"
    by (simp_all add: example_revenue_annual q n)
  from revenue_fallback_first_nonempty[of ?A] a1 obtain pre latest post where
    "annual example_revenue_series = pre @ latest # post"
    "\<forall>v\<in>set pre. end_key v < end_key latest"
    "\<forall>v\<in>set post. end_key v \<le> end_key latest"
    and ra: "fin_get (get_company_financials (Inr ?A)) revenue =
      Some \<lparr>concept_value = fact_val latest, period_end = fact_end latest\<rparr>"
    unfolding example_revenue_annual by blast
  from example_revenue_latest[OF this(1,2,3)] ra
  have a: "fin_get (get_company_financials (Inr ?A)) revenue =
     Some \<lparr>concept_value = Some 107000000000, period_end = Some ''2024-02-03''\<rparr>"
    by (simp add: entry_def)
  from revenue_fallback_first_nonempty[of ?B] b1 b2 obtain pre latest post where
    "annual example_revenue_series = pre @ latest # post"
    "\<forall>v\<in>set pre. end_key v < end_key latest"
    "\<forall>v\<in>set post. end_key v \<le> end_key latest"
    and rb: "fin_get (get_company_financials (Inr ?B)) revenue =
      Some \<lparr>concept_value = fact_val latest, period_end = fact_end latest\<rparr>"
    unfolding example_revenue_annual by blast
  from example_revenue_latest[OF this(1,2,3)] rb
  have b: "fin_get (get_company_financials (Inr ?B)) revenue =
     Some \<lparr>concept_value = Some 107000000000, period_end = Some ''2024-02-03''\<rparr>"
    by (simp add: entry_def)
  from revenue_fallback_first_nonempty[of ?C] c1 c2
  have c: "fin_get (get_company_financials (Inr ?C)) revenue = None" by blast
  from a1 a b1 b2 b c1 c2 c show ?thesis by blast
qed

section \<open>The capacity scorer\<close>

lemma value_or_zero_eq: "value_or_zero fin key = zero_if_missing (fin_get fin key)"
  by (cases "fin_get fin key") (auto simp: value_or_zero_def or_zero_def split: option.splits)

lemma capacity_score_eq:
  "score (calculate_capacity_rating fmt fin) = of_int (cash_plus_net_income fin) / 1000000000"
  by (simp add: calculate_capacity_rating_def Let_def value_or_zero_eq cash_plus_net_income_def
      split: prod.splits)

lemma capacity_rating_eq:
  "rating (calculate_capacity_rating fmt fin) =
     (if score (calculate_capacity_rating fmt fin) > 30 then ''MAJOR ($1M+)''
      else if score (calculate_capacity_rating fmt fin) > 15 then ''LEADERSHIP ($250K-$1M)''
      else if score (calculate_capacity_rating fmt fin) > 5 then ''PRINCIPAL ($50K-$250K)''
      else ''STANDARD ($10K-$50K)'')"
  by (simp add: calculate_capacity_rating_def Let_def split: prod.splits)

lemma tier_rank_rating:
  "tier_rank (rating (calculate_capacity_rating fmt fin)) =
     (if score (calculate_capacity_rating fmt fin) > 30 then 3
      else if score (calculate_capacity_rating fmt fin) > 15 then 2
      else if score (calculate_capacity_rating fmt fin) > 5 then 1
      else 0)"
  by (simp add: capacity_rating_eq tier_rank_def)


lemma example_score:
  "score (calculate_capacity_rating fmt (example_snapshot cash ni)) = of_int (cash + ni) / 1000000000"
  by (simp add: capacity_score_eq cash_plus_net_income_def example_snapshot_def reported_def)


text \<open>
  Claim C5. The capacity score is cash and equivalents plus net income, divided by
  \<open>10\<^sup>9\<close>, where a missing concept or a missing value inside it counts as zero. Total
  assets does not affect the score, and the error dict scores zero.
\<close>

theorem capacity_score_is_cash_plus_net_income_in_billions:
  "score (calculate_capacity_rating fmt fin) =
     of_int (zero_if_missing (fin_get fin cash_and_equivalents) +
             zero_if_missing (fin_get fin net_income)) / 1000000000 \<and>
   score (calculate_capacity_rating fmt (Financials (s\<lparr>total_assets := a\<rparr>))) =
     score (calculate_capacity_rating fmt (Financials s)) \<and>
   score (calculate_capacity_rating fmt (FinancialsError e)) = 0"
  by (simp add: capacity_score_eq cash_plus_net_income_def)

text \<open>
  A snapshot with no total assets, 2 billion of cash and 1 billion of net income scores 3;
  a snapshot with a cash concept whose value is null scores its net income alone.
\<close>

theorem capacity_score_is_cash_plus_net_income_in_billions_witness:
  "score (calculate_capacity_rating example_fmt (example_snapshot 2000000000 1000000000)) = 3 \<and>
   score (calculate_capacity_rating example_fmt
      (Financials \<lparr>revenue = None, net_income = reported 1000000000, total_assets = None,
         cash_and_equivalents = Some \<lparr>concept_value = None, period_end = None\<rparr>,
         stockholders_equity = None\<rparr>)) = 1 \<and>
   score (calculate_capacity_rating example_fmt (FinancialsError ''HTTP 503'')) = 0"
  using capacity_score_is_cash_plus_net_income_in_billions
      [of example_fmt "example_snapshot 2000000000 1000000000"]
    capacity_score_is_cash_plus_net_income_in_billions
      [of example_fmt "Financials \<lparr>revenue = None, net_income = reported 1000000000,
         total_assets = None,
         cash_and_equivalents = Some \<lparr>concept_value = None, period_end = None\<rparr>,
         stockholders_equity = None\<rparr>" _ _ "''HTTP 503''"]
  by (simp add: example_snapshot_def reported_def)

text \<open>
  Claim C6. If cash plus net income of one snapshot is at least that of another (missing
  inputs read as zero), then its tier is not lower in the order
  STANDARD < PRINCIPAL < LEADERSHIP < MAJOR and its score is not smaller.
\<close>

theorem capacity_rating_monotone:
  assumes "cash_plus_net_income fin2 \<le> cash_plus_net_income fin1"
  shows "tier_rank (rating (calculate_capacity_rating fmt fin2)) \<le>
           tier_rank (rating (calculate_capacity_rating fmt fin1)) \<and>
         score (calculate_capacity_rating fmt fin2) \<le> score (calculate_capacity_rating fmt fin1)"
proof -
  have le: "score (calculate_capacity_rating fmt fin2) \<le> score (calculate_capacity_rating fmt fin1)"
    using assms by (simp add: capacity_score_eq divide_right_mono)
  then show ?thesis by (simp add: tier_rank_rating)
qed

text \<open>
  The two scenario snapshots: 2 + 1 billion scores 3 (STANDARD), 10 + 25 billion scores
  35 (MAJOR).
\<close>

theorem capacity_rating_monotone_witness:
  "cash_plus_net_income (example_snapshot 2000000000 1000000000) \<le>
     cash_plus_net_income (example_snapshot 10000000000 25000000000) \<and>
   tier_rank (rating (calculate_capacity_rating example_fmt (example_snapshot 2000000000 1000000000))) \<le>
     tier_rank (rating (calculate_capacity_rating example_fmt (example_snapshot 10000000000 25000000000))) \<and>
   score (calculate_capacity_rating example_fmt (example_snapshot 2000000000 1000000000)) = 3 \<and>
   score (calculate_capacity_rating example_fmt (example_snapshot 10000000000 25000000000)) = 35 \<and>
   rating (calculate_capacity_rating example_fmt (example_snapshot 2000000000 1000000000)) = ''STANDARD ($10K-$50K)'' \<and>
   rating (calculate_capacity_rating example_fmt (example_snapshot 10000000000 25000000000)) = ''MAJOR ($1M+)''"
proof -
  have h: "cash_plus_net_income (example_snapshot 2000000000 1000000000) \<le>
     cash_plus_net_income (example_snapshot 10000000000 25000000000)"
    by (simp add: cash_plus_net_income_def example_snapshot_def reported_def)
  from capacity_rating_monotone[OF h, of example_fmt] h show ?thesis
    by (simp add: example_score capacity_rating_eq)
qed

subsection \<open>The rationale lines\<close>

lemma rationale_eq:
  "rationale (calculate_capacity_rating fmt fin) =
     [if value_or_zero fin cash_and_equivalents \<noteq> 0
      then ''Cash position: $'' @ fmt (value_or_zero fin cash_and_equivalents) @ ''B''
      else ''Cash data unavailable'',
      if value_or_zero fin net_income \<noteq> 0
      then ''Net income: $'' @ fmt (value_or_zero fin net_income) @ ''B''
      else ''Net income data unavailable'',
      if value_or_zero fin total_assets \<noteq> 0
      then ''Total assets: $'' @ fmt (value_or_zero fin total_assets) @ ''B''
      else ''Assets data unavailable'']"
  by (simp add: calculate_capacity_rating_def Let_def truthy_def split: prod.splits)

text \<open>
  Claim C9. A rationale line reports the value exactly when it is present. The code
  tests the defaulted number for truth, so a cash value that is present and equal to
  zero is reported with the unavailable marker.
\<close>

theorem rationale_reports_zero_as_unavailable:
  "fin_get (example_snapshot 0 4000000000) cash_and_equivalents =
     Some \<lparr>concept_value = Some 0, period_end = Some ''2024-12-31''\<rparr> \<and>
   rationale (calculate_capacity_rating fmt (example_snapshot 0 4000000000)) =
     [''Cash data unavailable'',
      ''Net income: $'' @ fmt 4000000000 @ ''B'',
      ''Assets data unavailable'']"
  by (simp add: rationale_eq value_or_zero_eq example_snapshot_def reported_def)

section \<open>The alignment scorer\<close>

lemma py_in_iff: "py_in t s \<longleftrightarrow> (\<exists>ps ss. s = ps @ t @ ss)"
proof (induction s)
  case Nil
  show ?case by auto
next
  case (Cons c cs)
  have sw: "startswith (c # cs) t \<longleftrightarrow> (\<exists>ss. c # cs = t @ ss)"
    unfolding startswith_def
    by (metis append_eq_conv_conj append_take_drop_id)
  show ?case
  proof
    assume "py_in t (c # cs)"
    then consider "startswith (c # cs) t" | "py_in t cs" by (auto split: if_splits)
    then show "\<exists>ps ss. c # cs = ps @ t @ ss"
    proof cases
      case 1
      with sw obtain ss where "c # cs = [] @ t @ ss" by auto
      then show ?thesis by blast
    next
      case 2
      with Cons.IH obtain ps ss where "cs = ps @ t @ ss" by blast
      then have "c # cs = (c # ps) @ t @ ss" by simp
      then show ?thesis by blast
    qed
  next
    assume "\<exists>ps ss. c # cs = ps @ t @ ss"
    then obtain ps ss where eq: "c # cs = ps @ t @ ss" by blast
    show "py_in t (c # cs)"
    proof (cases ps)
      case Nil
      with eq sw have "startswith (c # cs) t" by auto
      then show ?thesis by simp
    next
      case (Cons p ps')
      with eq have "cs = ps' @ t @ ss" by simp
      with Cons.IH have "py_in t cs" by blast
      then show ?thesis by simp
    qed
  qed
qed

lemma any_term_in_iff:
  "any_term_in terms d \<longleftrightarrow> (\<exists>t\<in>set terms. \<exists>ps ss. d = ps @ t @ ss)"
  by (simp add: any_term_in_def list_ex_iff py_in_iff)

lemma alignment_eq:
  "assess_mission_alignment company =
     (let d = lower (case sic_description company of None \<Rightarrow> [] | Some x \<Rightarrow> x);
          h = any_term_in healthcare_terms d;
          r = any_term_in retail_terms d;
          m = any_term_in manufacturing_terms d;
          n = (if h then 3 else 0) + (if r then 2 else 0) + (if m then 1 else 0) + 2
      in \<lparr>level = (if n \<ge> 4 then ''HIGH'' else ''MEDIUM''),
          alignment_score = n,
          factors =
            (if h then [''Healthcare sector - STRONG alignment with pediatric health mission''] else []) @
            (if r then [''Retail sector - Strong community presence, cause marketing potential''] else []) @
            (if m then [''Manufacturing sector - Likely has established CSR programs''] else []) @
            [''Minnesota headquarters - Local community connection to CCRF'']\<rparr>)"
  by (simp add: assess_mission_alignment_def Let_def)

text \<open>
  Claim C10. For every company record the alignment score is at least 2 and the level is
  HIGH or MEDIUM, never STANDARD: the locality bonus and its factor string are added
  whatever the record says.
\<close>

theorem alignment_at_least_medium:
  "alignment_score (assess_mission_alignment company) \<ge> 2 \<and>
   level (assess_mission_alignment company) \<noteq> ''STANDARD'' \<and>
   (level (assess_mission_alignment company) = ''HIGH'' \<or>
    level (assess_mission_alignment company) = ''MEDIUM'') \<and>
   last (factors (assess_mission_alignment company)) =
     ''Minnesota headquarters - Local community connection to CCRF''"
  by (simp add: alignment_eq Let_def)

text \<open>
  Claim C7, amended. When the lower-cased industry description contains a healthcare
  term and a retail term, the score is 3 + 2 + 2 = 7 if it contains no manufacturing
  term and 8 if it contains one; the level is HIGH; the healthcare factor comes first,
  the retail factor second, and the locality factor last.
\<close>

theorem alignment_healthcare_and_retail:
  assumes "any_term_in healthcare_terms (lower description)"
    and "any_term_in retail_terms (lower description)"
    and "sic_description company = Some description"
  shows "alignment_score (assess_mission_alignment company) =
           (if any_term_in manufacturing_terms (lower description) then 8 else 7) \<and>
         level (assess_mission_alignment company) = ''HIGH'' \<and>
         factors (assess_mission_alignment company) =
           [''Healthcare sector - STRONG alignment with pediatric health mission'',
            ''Retail sector - Strong community presence, cause marketing potential''] @
           (if any_term_in manufacturing_terms (lower description)
            then [''Manufacturing sector - Likely has established CSR programs''] else []) @
           [''Minnesota headquarters - Local community connection to CCRF'']"
  using assms by (simp add: alignment_eq Let_def)

lemma ex_lower: "lower ''Hospital retail pharmacies'' = ''hospital retail pharmacies''"
  by code_simp

lemma ex_lower2: "lower ''Hospital and industrial retail supplies'' = ''hospital and industrial retail supplies''"
  by code_simp

lemma ex_terms:
  "any_term_in healthcare_terms ''hospital retail pharmacies''"
  "any_term_in retail_terms ''hospital retail pharmacies''"
  "\<not> any_term_in manufacturing_terms ''hospital retail pharmacies''"
  by (simp_all add: any_term_in_def healthcare_terms_def retail_terms_def manufacturing_terms_def startswith_def)

lemma ex_terms2:
  "any_term_in healthcare_terms ''hospital and industrial retail supplies''"
  "any_term_in retail_terms ''hospital and industrial retail supplies''"
  "any_term_in manufacturing_terms ''hospital and industrial retail supplies''"
  by (simp_all add: any_term_in_def healthcare_terms_def retail_terms_def manufacturing_terms_def startswith_def)

text \<open>
  A description with a hospital and a retail term and no manufacturing term scores 7.
\<close>

theorem alignment_healthcare_and_retail_witness:
  "any_term_in healthcare_terms (lower ''Hospital retail pharmacies'') \<and>
   any_term_in retail_terms (lower ''Hospital retail pharmacies'') \<and>
   alignment_score (assess_mission_alignment (example_company ''Hospital retail pharmacies'')) = 7 \<and>
   level (assess_mission_alignment (example_company ''Hospital retail pharmacies'')) = ''HIGH'' \<and>
   factors (assess_mission_alignment (example_company ''Hospital retail pharmacies'')) =
     [''Healthcare sector - STRONG alignment with pediatric health mission'',
      ''Retail sector - Strong community presence, cause marketing potential'',
      ''Minnesota headquarters - Local community connection to CCRF'']"
proof -
  have d: "sic_description (example_company ''Hospital retail pharmacies'') = Some ''Hospital retail pharmacies''"
    by (simp add: example_company_def)
  have h: "any_term_in healthcare_terms (lower ''Hospital retail pharmacies'')"
    and r: "any_term_in retail_terms (lower ''Hospital retail pharmacies'')"
    and m: "\<not> any_term_in manufacturing_terms (lower ''Hospital retail pharmacies'')"
    by (simp_all add: ex_lower ex_terms)
  from alignment_healthcare_and_retail[OF h r d] h r m show ?thesis by simp
qed

text \<open>
  Claim C7 as stated fails: a description with a hospital term, a retail term and also
  the term industrial scores 8, not 7.
\<close>

theorem alignment_third_term_counterexample:
  "any_term_in healthcare_terms (lower ''Hospital and industrial retail supplies'') \<and>
   any_term_in retail_terms (lower ''Hospital and industrial retail supplies'') \<and>
   alignment_score (assess_mission_alignment
      (example_company ''Hospital and industrial retail supplies'')) = 8 \<and>
   alignment_score (assess_mission_alignment
      (example_company ''Hospital and industrial retail supplies'')) \<noteq> 3 + 2 + 2"
  by (simp add: alignment_eq Let_def example_company_def ex_lower2 ex_terms2)

text \<open>
  A record with an empty industry description scores exactly 2, is MEDIUM, and carries
  the locality factor alone.
\<close>

theorem alignment_at_least_medium_witness:
  "alignment_score (assess_mission_alignment (example_company [])) = 2 \<and>
   level (assess_mission_alignment (example_company [])) = ''MEDIUM'' \<and>
   factors (assess_mission_alignment (example_company [])) =
     [''Minnesota headquarters - Local community connection to CCRF'']"
proof -
  have "\<not> any_term_in healthcare_terms (lower [])" "\<not> any_term_in retail_terms (lower [])"
    "\<not> any_term_in manufacturing_terms (lower [])"
    by (simp_all add: lower_def any_term_in_def healthcare_terms_def retail_terms_def manufacturing_terms_def)
  then have "alignment_score (assess_mission_alignment (example_company [])) = 2"
    and f: "factors (assess_mission_alignment (example_company [])) =
     [''Minnesota headquarters - Local community connection to CCRF'']"
    by (simp_all add: alignment_eq Let_def example_company_def)
  with alignment_at_least_medium[of "example_company []"] show ?thesis by (simp add: alignment_eq Let_def)
qed

section \<open>The priority ranking\<close>

lemma decorate_Inr:
  "decorate key xs = Inr kxs \<Longrightarrow> map snd kxs = xs \<and> (\<forall>p\<in>set kxs. key (snd p) = Inr (fst p))"
proof (induction xs arbitrary: kxs)
  case Nil
  then show ?case by auto
next
  case (Cons x xs)
  from Cons.prems obtain k rest where k: "key x = Inr k" and rest: "decorate key xs = Inr rest"
    and kxs: "kxs = (k, x) # rest"
    by (auto split: sum.splits)
  from Cons.IH[OF rest] k kxs show ?case by simp
qed

lemma decorate_total:
  "\<forall>x\<in>set xs. \<exists>k. key x = Inr k \<Longrightarrow> \<exists>kxs. decorate key xs = Inr kxs"
  by (induction xs) auto

lemma sorted_reverse_total:
  "\<forall>x\<in>set xs. \<exists>k. key x = Inr k \<Longrightarrow> \<exists>ys. sorted_reverse key xs = Inr ys"
  using decorate_total[of xs key] by (auto simp: sorted_reverse_def)

lemma sorted_reverse_Inr:
  assumes "sorted_reverse key xs = Inr ys"
  shows "mset ys = mset xs"
    and "\<exists>ks. map key ys = map Inr ks \<and> sorted_wrt (\<lambda>a b. b \<le> a) ks"
    and "filter (\<lambda>r. key r = Inr k) ys = filter (\<lambda>r. key r = Inr k) xs"
proof -
  from assms obtain kxs where dec: "decorate key xs = Inr kxs"
    and ys: "ys = map snd (rev (sort_key fst (rev kxs)))"
    by (auto simp: sorted_reverse_def split: sum.splits)
  from decorate_Inr[OF dec] have xs: "map snd kxs = xs"
    and keys: "\<forall>p\<in>set kxs. key (snd p) = Inr (fst p)" by simp_all
  let ?L = "rev (sort_key fst (rev kxs))"
  have setL: "set ?L = set kxs" by simp
  have "mset ?L = mset kxs" by simp
  then have "mset (map snd ?L) = mset (map snd kxs)" by (simp only: mset_map)
  then show "mset ys = mset xs" by (simp only: ys xs)
  have "map key ys = map Inr (map fst ?L)"
    unfolding ys map_map using keys setL by (intro map_cong refl) auto
  moreover have "sorted_wrt (\<lambda>a b. b \<le> a) (map fst ?L)"
  proof -
    have "sorted (map fst (sort_key fst (rev kxs)))" by (rule sorted_sort_key)
    then have "sorted_wrt (\<lambda>a b. b \<le> a) (rev (map fst (sort_key fst (rev kxs))))"
      by (simp add: sorted_wrt_rev)
    then show ?thesis by (simp add: rev_map)
  qed
  ultimately show "\<exists>ks. map key ys = map Inr ks \<and> sorted_wrt (\<lambda>a b. b \<le> a) ks" by blast
  have stable: "filter (\<lambda>p. fst p = k) ?L = filter (\<lambda>p. fst p = k) kxs"
  proof -
    have "filter (\<lambda>p. fst p = k) ?L = rev (filter (\<lambda>p. fst p = k) (sort_key fst (rev kxs)))"
      by (simp add: rev_filter)
    also have "\<dots> = rev (filter (\<lambda>p. fst p = k) (rev kxs))"
      by (simp only: sort_key_stable)
    also have "\<dots> = filter (\<lambda>p. fst p = k) kxs" by (simp add: rev_filter)
    finally show ?thesis .
  qed
  have "filter (\<lambda>r. key r = Inr k) ys = map snd (filter (\<lambda>p. key (snd p) = Inr k) ?L)"
    by (simp add: ys filter_map comp_def)
  also have "filter (\<lambda>p. key (snd p) = Inr k) ?L = filter (\<lambda>p. fst p = k) ?L"
    using keys setL by (intro filter_cong refl) auto
  also have "\<dots> = filter (\<lambda>p. fst p = k) kxs" by (rule stable)
  also have "\<dots> = filter (\<lambda>p. key (snd p) = Inr k) kxs"
    using keys by (intro filter_cong refl) auto
  also have "map snd \<dots> = filter (\<lambda>r. key r = Inr k) (map snd kxs)"
    by (simp add: filter_map comp_def)
  finally show "filter (\<lambda>r. key r = Inr k) ys = filter (\<lambda>r. key r = Inr k) xs"
    by (simp only: xs)
qed

lemma zfill_length: "width \<le> length (zfill width s)"
  by (auto simp: zfill_def split: list.splits)

lemma find_cik_nonempty: "find_cik entries t \<noteq> Some []"
proof (induction entries)
  case Nil
  show ?case by simp
next
  case (Cons e es)
  have "zfill 10 s \<noteq> []" for s
    using zfill_length[of 10 s] by auto
  with Cons show ?case by (auto split: option.splits)
qed

lemma get_cik_from_ticker_nonempty: "get_cik_from_ticker response t \<noteq> Some []"
  by (cases response) (simp_all add: get_cik_from_ticker_def find_cik_nonempty)

lemma research_company_failure:
  "get_cik_from_ticker (company_tickers up) (ticker c) = None \<Longrightarrow>
   research_company up fmt c = [(''error'', FStr (''Could not find CIK for '' @ ticker c))]"
  by (simp add: research_company_def Let_def)

lemma research_company_valid:
  assumes "\<not> has_key ''error'' (research_company up fmt c)"
  shows "get_cik_from_ticker (company_tickers up) (ticker c) \<noteq> None"
    and "map_of (research_company up fmt c) ''ticker'' = Some (FStr (ticker c))"
    and "\<exists>k. capacity_score (research_company up fmt c) = Inr k"
proof -
  show found: "get_cik_from_ticker (company_tickers up) (ticker c) \<noteq> None"
  proof
    assume "get_cik_from_ticker (company_tickers up) (ticker c) = None"
    from research_company_failure[OF this, of fmt] assms show False
      by (simp add: has_key_def)
  qed
  then obtain cik' where cik': "get_cik_from_ticker (company_tickers up) (ticker c) = Some cik'"
    by blast
  have ne: "cik' \<noteq> []"
  proof
    assume "cik' = []"
    with cik' have "research_company up fmt c =
        [(''error'', FStr (''Could not find CIK for '' @ ticker c))]"
      by (simp add: research_company_def Let_def)
    with assms show False by (simp add: has_key_def)
  qed
  have "\<exists>info. get_company_info (ticker c) cik' (submissions up cik') = Info info"
  proof (cases "get_company_info (ticker c) cik' (submissions up cik')")
    case (Info info)
    then show ?thesis by blast
  next
    case (InfoError msg)
    with cik' ne have "research_company up fmt c = [(''error'', FStr msg)]"
      by (simp add: research_company_def Let_def)
    with assms show ?thesis by (simp add: has_key_def)
  qed
  then obtain info where
    info: "get_company_info (ticker c) cik' (submissions up cik') = Info info" by blast
  show "map_of (research_company up fmt c) ''ticker'' = Some (FStr (ticker c))"
    by (simp add: research_company_def Let_def cik' ne info)
  show "\<exists>k. capacity_score (research_company up fmt c) = Inr k"
    by (simp add: research_company_def Let_def cik' ne info capacity_score_def)
qed

lemma valid_results_scored:
  "\<forall>r\<in>set (valid_results (research_all_companies up fmt companies)). \<exists>k. capacity_score r = Inr k"
  using research_company_valid(3)
  by (auto simp: valid_results_def research_all_companies_def)

text \<open>
  Claim C8. For every upstream and company list, \<open>main\<close> produces a ranking, and the
  dashboard produces the same one unless no result is valid. The ranking holds exactly
  the valid results (as a multiset), every ranked result has a capacity score, the scores
  are in descending order, and the results of any given score stand in the ranking in
  the order in which they were encountered.
\<close>

theorem priority_ranking_descending_stable:
  "\<exists>ranking scores.
     main up fmt companies = Inr ranking \<and>
     dashboard_ranking (research_all_companies up fmt companies) =
       (if valid_results (research_all_companies up fmt companies) = [] then None
        else Some (Inr ranking)) \<and>
     mset ranking = mset (valid_results (research_all_companies up fmt companies)) \<and>
     map capacity_score ranking = map Inr scores \<and>
     sorted_wrt (\<lambda>a b. b \<le> a) scores \<and>
     (\<forall>k. filter (\<lambda>r. capacity_score r = Inr k) ranking =
          filter (\<lambda>r. capacity_score r = Inr k)
            (valid_results (research_all_companies up fmt companies)))"
proof -
  let ?valid = "valid_results (research_all_companies up fmt companies)"
  from sorted_reverse_total[OF valid_results_scored] obtain ranking where
    r: "sorted_reverse capacity_score ?valid = Inr ranking" by blast
  from sorted_reverse_Inr(2)[OF r] obtain scores where
    s: "map capacity_score ranking = map Inr scores" "sorted_wrt (\<lambda>a b. b \<le> a) scores"
    by blast
  have "main up fmt companies = Inr ranking"
    by (simp add: main_def priority_ranking_def r)
  moreover have "dashboard_ranking (research_all_companies up fmt companies) =
       (if ?valid = [] then None else Some (Inr ranking))"
    by (simp add: dashboard_ranking_def r)
  ultimately show ?thesis
    using sorted_reverse_Inr(1)[OF r] sorted_reverse_Inr(3)[OF r] s by blast
qed

text \<open>
  Claim C2, amended. When the CIK lookup of a company fails, its result is the dict with
  the single key \<open>error\<close>, whose message ends with the ticker; that result is not in the
  priority ranking, and no ranked result carries the company's ticker.
\<close>

theorem failed_resolution_not_ranked:
  assumes "get_cik_from_ticker (company_tickers up) (ticker company) = None"
  shows "research_company up fmt company =
           [(''error'', FStr (''Could not find CIK for '' @ ticker company))] \<and>
         (\<exists>ranking. main up fmt companies = Inr ranking \<and>
            research_company up fmt company \<notin> set ranking \<and>
            (\<forall>r\<in>set ranking. map_of r ''ticker'' \<noteq> Some (FStr (ticker company))))"
proof -
  let ?valid = "valid_results (research_all_companies up fmt companies)"
  have fail: "research_company up fmt company =
           [(''error'', FStr (''Could not find CIK for '' @ ticker company))]"
    using assms by (rule research_company_failure)
  from sorted_reverse_total[OF valid_results_scored] obtain ranking where
    r: "sorted_reverse capacity_score ?valid = Inr ranking" by blast
  then have m: "main up fmt companies = Inr ranking"
    by (simp add: main_def priority_ranking_def)
  from sorted_reverse_Inr(1)[OF r] have "set ranking = set ?valid"
    by (rule mset_eq_setD)
  then have ranked: "\<And>x. x \<in> set ranking \<Longrightarrow>
      \<not> has_key ''error'' x \<and> (\<exists>c\<in>set companies. x = research_company up fmt c)"
    by (auto simp: valid_results_def research_all_companies_def)
  have "research_company up fmt company \<notin> set ranking"
  proof
    assume "research_company up fmt company \<in> set ranking"
    from ranked[OF this] show False by (simp add: fail has_key_def)
  qed
  moreover have "\<forall>x\<in>set ranking. map_of x ''ticker'' \<noteq> Some (FStr (ticker company))"
  proof
    fix x assume "x \<in> set ranking"
    from ranked[OF this] obtain c where
      c: "x = research_company up fmt c" "\<not> has_key ''error'' (research_company up fmt c)"
      by blast
    from research_company_valid(1,2)[OF c(2)] assms c(1)
    show "map_of x ''ticker'' \<noteq> Some (FStr (ticker company))" by auto
  qed
  ultimately show ?thesis using fail m by blast
qed

subsection \<open>Evaluating the example run\<close>

lemma example_companies: "MINNESOTA_COMPANIES = [tgt, mmm, unh]"
  by (simp add: MINNESOTA_COMPANIES_def tgt_def mmm_def unh_def)

lemma example_tickers:
  "ticker tgt = ''TGT''" "ticker mmm = ''MMM''" "ticker unh = ''UNH''" "ticker tgt_edina = ''TGT''"
  by (simp_all add: tgt_def mmm_def unh_def tgt_edina_def)

lemma example_str: "str_int 27419 = ''27419''" "str_int 731766 = ''731766''"
  by (simp_all add: str_int_def digit_char_def)

lemma example_upper: "upper ''TGT'' = ''TGT''" "upper ''MMM'' = ''MMM''" "upper ''UNH'' = ''UNH''"
  by (simp_all add: upper_def upper_char_def)

lemma example_cik_literal:
  "get_cik_from_ticker (company_tickers example_upstream) ''TGT'' = Some ''0000027419''"
  "get_cik_from_ticker (company_tickers example_upstream) ''MMM'' = None"
  "get_cik_from_ticker (company_tickers example_upstream) ''UNH'' = Some ''0000731766''"
  by (simp_all add: get_cik_from_ticker_def example_upstream_def example_upper example_str zfill_def eval_nat_numeral)

lemma example_cik:
  "get_cik_from_ticker (company_tickers example_upstream) (ticker tgt) = Some ''0000027419''"
  "get_cik_from_ticker (company_tickers example_upstream) (ticker mmm) = None"
  "get_cik_from_ticker (company_tickers example_upstream) (ticker unh) = Some ''0000731766''"
  "get_cik_from_ticker (company_tickers example_upstream) (ticker tgt_edina) = Some ''0000027419''"
  by (simp_all add: example_tickers example_cik_literal)

lemma example_financials:
  "get_company_financials (Inr (example_payload ni)) =
     Financials \<lparr>revenue = None,
       net_income = Some \<lparr>concept_value = Some ni, period_end = Some ''2024-12-31''\<rparr>,
       total_assets = None,
       cash_and_equivalents =
         Some \<lparr>concept_value = Some 10000000000, period_end = Some ''2024-12-31''\<rparr>,
       stockholders_equity = None\<rparr>"
  by (simp add: get_company_financials_def Let_def us_gaap_of_def example_payload_def
      or_else_def get_latest_def usd_series_def usd_values_def annual_def entry_def)

lemma example_facts_served:
  "companyfacts example_upstream ''0000027419'' = Inr (example_payload 4000000000)"
  "companyfacts example_upstream ''0000731766'' = Inr (example_payload 25000000000)"
  by (simp_all add: example_upstream_def)

lemma example_submissions:
  "submissions example_upstream ''0000027419'' = Inr (example_submission ''Retail-Variety Stores'')"
  "submissions example_upstream ''0000731766'' =
     Inr (example_submission ''Hospital & Medical Service Plans'')"
  by (simp_all add: example_upstream_def)

lemma example_scores:
  "capacity_score (research_company example_upstream example_fmt tgt) = Inr 14"
  "capacity_score (research_company example_upstream example_fmt unh) = Inr 35"
  "has_key ''error'' (research_company example_upstream example_fmt mmm)"
  "\<not> has_key ''error'' (research_company example_upstream example_fmt tgt)"
  "\<not> has_key ''error'' (research_company example_upstream example_fmt unh)"
  by (simp_all add: research_company_def example_cik Let_def
      get_company_info_def capacity_score_def has_key_def capacity_score_eq
      example_facts_served example_submissions example_financials cash_plus_net_income_def)

lemma example_main:
  "main example_upstream example_fmt MINNESOTA_COMPANIES =
     Inr [research_company example_upstream example_fmt unh,
          research_company example_upstream example_fmt tgt]"
  by (simp add: example_companies main_def priority_ranking_def research_all_companies_def
      valid_results_def example_scores sorted_reverse_def)

lemma example_edina:
  "capacity_score (research_company example_upstream example_fmt tgt_edina) = Inr 14"
  "\<not> has_key ''error'' (research_company example_upstream example_fmt tgt_edina)"
  "research_company example_upstream example_fmt tgt_edina \<noteq>
     research_company example_upstream example_fmt tgt"
proof -
  show "capacity_score (research_company example_upstream example_fmt tgt_edina) = Inr 14"
    and "\<not> has_key ''error'' (research_company example_upstream example_fmt tgt_edina)"
    by (simp_all add: research_company_def example_cik Let_def
        get_company_info_def capacity_score_def has_key_def capacity_score_eq
        example_facts_served example_submissions example_financials cash_plus_net_income_def)
  have "map_of (research_company example_upstream example_fmt c) ''config'' = Some (FConfig c)"
    if "c = tgt \<or> c = tgt_edina" for c
    using that by (auto simp: research_company_def example_cik Let_def get_company_info_def
        example_submissions)
  from this[of tgt] this[of tgt_edina]
  show "research_company example_upstream example_fmt tgt_edina \<noteq>
     research_company example_upstream example_fmt tgt"
    by (auto simp: tgt_def tgt_edina_def)
qed

lemma example_failure:
  "research_company example_upstream example_fmt mmm =
     [(''error'', FStr ''Could not find CIK for MMM'')]"
  using research_company_failure[of example_upstream mmm example_fmt] example_cik(2)
  by (simp add: mmm_def)

text \<open>
  On the example upstream the ranking of TGT, MMM, UNH and a second TGT configuration
  puts UNH (35) first, then the two results that score 14 in encounter order; MMM, whose
  lookup fails, is absent.
\<close>

theorem priority_ranking_descending_stable_witness:
  "main example_upstream example_fmt [tgt, mmm, unh, tgt_edina] =
     Inr [research_company example_upstream example_fmt unh,
          research_company example_upstream example_fmt tgt,
          research_company example_upstream example_fmt tgt_edina] \<and>
   map capacity_score
     [research_company example_upstream example_fmt unh,
      research_company example_upstream example_fmt tgt,
      research_company example_upstream example_fmt tgt_edina] = [Inr 35, Inr 14, Inr 14] \<and>
   research_company example_upstream example_fmt tgt_edina \<noteq>
     research_company example_upstream example_fmt tgt \<and>
   valid_results (research_all_companies example_upstream example_fmt [tgt, mmm, unh, tgt_edina]) =
     [research_company example_upstream example_fmt tgt,
      research_company example_upstream example_fmt unh,
      research_company example_upstream example_fmt tgt_edina]"
proof -
  have v: "valid_results (research_all_companies example_upstream example_fmt [tgt, mmm, unh, tgt_edina]) =
     [research_company example_upstream example_fmt tgt,
      research_company example_upstream example_fmt unh,
      research_company example_upstream example_fmt tgt_edina]"
    by (simp add: research_all_companies_def valid_results_def example_scores example_edina)
  from priority_ranking_descending_stable[of example_upstream example_fmt "[tgt, mmm, unh, tgt_edina]"]
  obtain ranking scores where
    m: "main example_upstream example_fmt [tgt, mmm, unh, tgt_edina] = Inr ranking"
    by blast
  have e: "main example_upstream example_fmt [tgt, mmm, unh, tgt_edina] =
     Inr [research_company example_upstream example_fmt unh,
          research_company example_upstream example_fmt tgt,
          research_company example_upstream example_fmt tgt_edina]"
    by (simp add: main_def priority_ranking_def v sorted_reverse_def example_scores example_edina)
  with m have "ranking = [research_company example_upstream example_fmt unh,
          research_company example_upstream example_fmt tgt,
          research_company example_upstream example_fmt tgt_edina]" by simp
  with m v show ?thesis by (simp add: example_scores example_edina)
qed

text \<open>
  MMM is not resolved by the example upstream: its result is the one-key error dict and
  the ranking of the configured list holds UNH and TGT only.
\<close>

theorem failed_resolution_not_ranked_witness:
  "get_cik_from_ticker (company_tickers example_upstream) (ticker mmm) = None \<and>
   research_company example_upstream example_fmt mmm =
     [(''error'', FStr ''Could not find CIK for MMM'')] \<and>
   main example_upstream example_fmt MINNESOTA_COMPANIES =
     Inr [research_company example_upstream example_fmt unh,
          research_company example_upstream example_fmt tgt] \<and>
   research_company example_upstream example_fmt mmm \<notin>
     set [research_company example_upstream example_fmt unh,
          research_company example_upstream example_fmt tgt]"
proof -
  from failed_resolution_not_ranked[of example_upstream mmm example_fmt MINNESOTA_COMPANIES]
    example_cik(2)
  obtain ranking where
    r: "main example_upstream example_fmt MINNESOTA_COMPANIES = Inr ranking"
       "research_company example_upstream example_fmt mmm \<notin> set ranking"
    by blast
  from r(1) example_main have "ranking = [research_company example_upstream example_fmt unh,
          research_company example_upstream example_fmt tgt]" by simp
  with r(2) example_main example_failure example_cik(2) show ?thesis by simp
qed

text \<open>
  Claim C2 as stated fails: the failure record of MMM has the key \<open>error\<close> and no other,
  so it has no field for the symbol, and no field holds the symbol as its value.
\<close>

theorem failure_record_has_no_symbol_field:
  "get_cik_from_ticker (company_tickers example_upstream) (ticker mmm) = None \<and>
   map fst (research_company example_upstream example_fmt mmm) = [''error''] \<and>
   \<not> has_key ''ticker'' (research_company example_upstream example_fmt mmm) \<and>
   FStr (ticker mmm) \<notin> snd ` set (research_company example_upstream example_fmt mmm)"
  by (simp add: example_failure example_cik(2) has_key_def) (simp add: mmm_def)

end
